theory Spec2Isabelle
  imports Complex_Main
begin

section \<open>Values and errors\<close>

text \<open>
  The analyzer is one Python file, \<^verbatim>\<open>main.py\<close>. The part verified here is
  \<^verbatim>\<open>GitHubAPI.fetch_commit_activity\<close> from the point where both HTTP responses
  have arrived, and the two static methods of \<^verbatim>\<open>DataProcessor\<close>.

  A weekly total as the statistics endpoint delivers it is a JSON integer. The model also
  has booleans, null, strings and the absent key. To Python a boolean is a number,
  \<^verbatim>\<open>True\<close> being 1 and \<^verbatim>\<open>False\<close> being 0, and \<^verbatim>\<open>sum\<close> and \<^verbatim>\<open>numpy\<close> count it
  so; on null and on a string they raise \<^verbatim>\<open>TypeError\<close>. JSON fractional numbers, arrays
  and objects are outside the model.
\<close>

datatype py_error = KeyError | TypeError | ValueError | IndexError

datatype py_num = PyInt int | PyBool bool

datatype py_value = PyNone | PyStr string | PyNum py_num

fun int_of :: "py_num \<Rightarrow> int" where
  "int_of (PyInt n) = n"
| "int_of (PyBool b) = (if b then 1 else 0)"

text \<open>
  A \<^verbatim>\<open>numpy.float64\<close> is either NaN or a number. A number is modelled by the real it
  stands for: the rounding errors of binary64 arithmetic are not part of the model. They
  are far below what can change a comparison or a result of this program while the totals
  are of the size of commit counts, except where a value is rounded to two decimal places
  and lies at the midpoint of two candidates; see \<open>py_round2\<close>.
\<close>

datatype np_float = NaN | Fin real

section \<open>Timestamps\<close>

record datetime =
  year :: nat
  month :: nat
  day :: nat
  hour :: nat
  minute :: nat
  second :: nat

definition is_digit :: "char \<Rightarrow> bool" where
  "is_digit c = (c \<in> set ''0123456789'')"

definition digit_val :: "char \<Rightarrow> nat" where
  "digit_val c = of_char c - 48"

definition digits_val :: "string \<Rightarrow> nat" where
  "digits_val ds = foldl (\<lambda>n c. 10 * n + digit_val c) 0 ds"

text \<open>
  One numeric directive followed by a literal that is not a digit: the directive takes the
  whole run of digits, which has to be \<open>lo_len\<close> to \<open>hi_len\<close> long with a value
  from \<open>lo\<close> to \<open>hi\<close>. This is what the alternations of the library's pattern
  (\<^verbatim>\<open>1[0-2]|0[1-9]|[1-9]\<close> for \<^verbatim>\<open>%m\<close> and so on) accept.
\<close>

definition directive :: "nat \<Rightarrow> nat \<Rightarrow> nat \<Rightarrow> nat \<Rightarrow> string \<Rightarrow> (nat \<times> string) option" where
  "directive lo_len hi_len lo hi s =
     (let ds = takeWhile is_digit s; n = digits_val ds
      in if lo_len \<le> length ds \<and> length ds \<le> hi_len \<and> lo \<le> n \<and> n \<le> hi
         then Some (n, dropWhile is_digit s) else None)"

text \<open>The day directive \<^verbatim>\<open>%d\<close> also accepts a space before one digit from 1 to 9.\<close>

definition directive_d :: "string \<Rightarrow> (nat \<times> string) option" where
  "directive_d s =
     (case s of
        c # r \<Rightarrow> (if c = CHR '' '' then directive 1 1 1 9 r else directive 1 2 1 31 s)
      | [] \<Rightarrow> None)"

text \<open>A literal of the format; the pattern is compiled ignoring case.\<close>

definition literal :: "string \<Rightarrow> string \<Rightarrow> string option" where
  "literal accepted s =
     (case s of c # r \<Rightarrow> (if c \<in> set accepted then Some r else None) | [] \<Rightarrow> None)"

definition is_leap :: "nat \<Rightarrow> bool" where
  "is_leap y = (y mod 4 = 0 \<and> (y mod 100 \<noteq> 0 \<or> y mod 400 = 0))"

definition days_in_month :: "nat \<Rightarrow> nat \<Rightarrow> nat" where
  "days_in_month y m =
     (if m = 2 then (if is_leap y then 29 else 28)
      else if m \<in> {4, 6, 9, 11} then 30 else 31)"

text \<open>
  \<^verbatim>\<open>datetime.strptime(s, '%Y-%m-%dT%H:%M:%SZ')\<close>; \<open>None\<close> is the
  \<^verbatim>\<open>ValueError\<close> it raises. The pattern admits seconds 60 and 61 and any day up to
  31, and the \<^verbatim>\<open>datetime\<close> constructor then rejects them, as it rejects year 0.
\<close>

definition strptime :: "string \<Rightarrow> datetime option" where
  "strptime s =
     Option.bind (directive 4 4 0 9999 s) (\<lambda>(Y, s1).
     Option.bind (literal ''-'' s1) (\<lambda>s2.
     Option.bind (directive 1 2 1 12 s2) (\<lambda>(m, s3).
     Option.bind (literal ''-'' s3) (\<lambda>s4.
     Option.bind (directive_d s4) (\<lambda>(d, s5).
     Option.bind (literal ''Tt'' s5) (\<lambda>s6.
     Option.bind (directive 1 2 0 23 s6) (\<lambda>(H, s7).
     Option.bind (literal '':'' s7) (\<lambda>s8.
     Option.bind (directive 1 2 0 59 s8) (\<lambda>(M, s9).
     Option.bind (literal '':'' s9) (\<lambda>s10.
     Option.bind (directive 1 2 0 61 s10) (\<lambda>(S, s11).
     Option.bind (literal ''Zz'' s11) (\<lambda>s12.
       if s12 = [] \<and> 1 \<le> Y \<and> d \<le> days_in_month Y m \<and> S \<le> 59
       then Some \<lparr>year = Y, month = m, day = d, hour = H, minute = M, second = S\<rparr>
       else None))))))))))))"

section \<open>Fetching the commit activity\<close>

text \<open>
  A week of the statistics endpoint; \<open>total\<close> is \<open>None\<close> when the key is absent.
  A commit of the commits endpoint, with the four values the loop reads:
  \<^verbatim>\<open>commit['commit']['author']['date']\<close>, \<^verbatim>\<open>commit['commit']['message']\<close>,
  \<^verbatim>\<open>commit['commit']['author']['name']\<close> and \<^verbatim>\<open>commit['sha']\<close>. Each is a string, or
  \<open>None\<close> where reading it raises: a key is absent, or the author is null.
\<close>

record week_entry =
  week :: int
  total :: "py_value option"

record raw_commit =
  raw_date :: "string option"
  raw_message :: "string option"
  raw_name :: "string option"
  raw_sha :: "string option"

record commit_entry =
  date :: datetime
  message :: string
  author :: string
  sha :: string

record activity =
  weekly_commits :: int
  activity_by_week :: "week_entry list"
  commit_history :: "commit_entry list"
  total_commits :: nat

text \<open>\<^verbatim>\<open>[week["total"] for week in activity_data]\<close>: the first absent key raises.\<close>

fun totals_of :: "week_entry list \<Rightarrow> py_error + py_value list" where
  "totals_of [] = Inr []"
| "totals_of (w # ws) =
     (case total w of
        None \<Rightarrow> Inl KeyError
      | Some v \<Rightarrow> (case totals_of ws of Inl e \<Rightarrow> Inl e | Inr vs \<Rightarrow> Inr (v # vs)))"

text \<open>\<^verbatim>\<open>sum\<close> adds from the left, starting at 0.\<close>

fun py_sum :: "int \<Rightarrow> py_value list \<Rightarrow> py_error + int" where
  "py_sum acc [] = Inr acc"
| "py_sum acc (PyNum n # vs) = py_sum (acc + int_of n) vs"
| "py_sum acc (_ # vs) = Inl TypeError"

text \<open>
  The body of the \<^verbatim>\<open>try\<close> inside the loop over \<^verbatim>\<open>commits_data\<close>; \<open>None\<close> is any
  exception, which the bare \<^verbatim>\<open>except\<close> answers with \<^verbatim>\<open>continue\<close>.
\<close>

definition process_commit :: "raw_commit \<Rightarrow> commit_entry option" where
  "process_commit c =
     Option.bind (raw_date c) (\<lambda>d.
     Option.bind (strptime d) (\<lambda>commit_date.
     Option.bind (raw_message c) (\<lambda>m.
     Option.bind (raw_name c) (\<lambda>n.
     Option.bind (raw_sha c) (\<lambda>s.
       Some \<lparr>date = commit_date, message = m, author = n, sha = take 7 s\<rparr>)))))"

fun process_commits :: "raw_commit list \<Rightarrow> commit_entry list" where
  "process_commits [] = []"
| "process_commits (c # cs) =
     (case process_commit c of
        Some entry \<Rightarrow> entry # process_commits cs
      | None \<Rightarrow> process_commits cs)"

text \<open>The body of the outer \<^verbatim>\<open>try\<close> once both status codes are 200.\<close>

definition process_activity :: "week_entry list \<Rightarrow> raw_commit list \<Rightarrow> py_error + activity" where
  "process_activity activity_data commits_data =
     (case totals_of activity_data of Inl e \<Rightarrow> Inl e | Inr vs \<Rightarrow>
       (case py_sum 0 vs of Inl e \<Rightarrow> Inl e | Inr weekly \<Rightarrow>
          Inr \<lparr>weekly_commits = weekly, activity_by_week = activity_data,
               commit_history = process_commits commits_data,
               total_commits = length commits_data\<rparr>))"

text \<open>
  \<^verbatim>\<open>fetch_commit_activity\<close> from the two responses on. Every other status code, and every
  exception of the body, is reported on the page and gives \<^verbatim>\<open>None\<close>.
\<close>

definition fetch_commit_activity ::
  "nat \<Rightarrow> nat \<Rightarrow> week_entry list \<Rightarrow> raw_commit list \<Rightarrow> activity option" where
  "fetch_commit_activity activity_status commits_status activity_data commits_data =
     (if activity_status = 200 \<and> commits_status = 200
      then (case process_activity activity_data commits_data of
              Inl e \<Rightarrow> None | Inr a \<Rightarrow> Some a)
      else None)"

section \<open>Statistics\<close>

text \<open>
  \<^verbatim>\<open>numpy\<close> takes the list of totals as numbers, a boolean as 0 or 1. On a list holding
  null or a string \<^verbatim>\<open>np.mean\<close> raises \<^verbatim>\<open>TypeError\<close>, which \<open>as_numbers\<close> decides. On
  an empty list \<^verbatim>\<open>np.mean\<close>, \<^verbatim>\<open>np.median\<close> and \<^verbatim>\<open>np.std\<close> warn and give NaN.
\<close>

fun as_numbers :: "py_value list \<Rightarrow> py_num list option" where
  "as_numbers [] = Some []"
| "as_numbers (PyNum n # vs) =
     (case as_numbers vs of None \<Rightarrow> None | Some ns \<Rightarrow> Some (n # ns))"
| "as_numbers (_ # vs) = None"

definition np_mean :: "int list \<Rightarrow> np_float" where
  "np_mean xs =
     (if xs = [] then NaN else Fin (real_of_int (sum_list xs) / real (length xs)))"

definition np_median :: "int list \<Rightarrow> np_float" where
  "np_median xs =
     (if xs = [] then NaN
      else let s = sort xs; n = length s
           in if odd n then Fin (real_of_int (s ! (n div 2)))
              else Fin (real_of_int (s ! (n div 2 - 1) + s ! (n div 2)) / 2))"

definition np_std :: "int list \<Rightarrow> np_float" where
  "np_std xs =
     (if xs = [] then NaN
      else let m = real_of_int (sum_list xs) / real (length xs)
           in Fin (sqrt (sum_list (map (\<lambda>x. (real_of_int x - m)\<^sup>2) xs) / real (length xs))))"

text \<open>
  \<^verbatim>\<open>round(x, 2)\<close> on a \<^verbatim>\<open>numpy.float64\<close>; NaN stays NaN. The code rounds the binary64
  value that the computation has reached, which differs from the real \<open>x\<close> of the model
  by the rounding errors made on the way. So the model fixes the result only where
  \<open>x * 100\<close> is more than a thousandth away from the midpoint of two integers: there the
  nearer integer is taken, which no rounding error of binary64 changes for totals of the
  size of commit counts (below a million, and a thousand of them). Closer to a midpoint
  the errors decide which of the two neighbours the code returns, and the model leaves the
  decision to its parameter \<open>up\<close>. For forty totals that sum to 23 the mean is the midpoint 0.575,
  its binary64 value lies below it, and the code returns 0.57. The result is given as the
  number with two decimal places that is displayed.
\<close>

fun py_round2 :: "(real \<Rightarrow> bool) \<Rightarrow> np_float \<Rightarrow> np_float" where
  "py_round2 up NaN = NaN"
| "py_round2 up (Fin x) =
     (let f = \<lfloor>x * 100\<rfloor>; d = x * 100 - of_int f
      in Fin (of_int (if d < 1 / 2 - 1 / 1000 then f
                      else if 1 / 2 + 1 / 1000 < d then f + 1
                      else if up x then f + 1 else f) / 100))"

text \<open>
  \<^verbatim>\<open>max\<close> and \<^verbatim>\<open>min\<close> of Python return the first of the greatest, respectively of the
  least, elements, as the object it is.
\<close>

fun py_max :: "py_num list \<Rightarrow> py_error + py_num" where
  "py_max [] = Inl ValueError"
| "py_max (n # ns) = Inr (foldl (\<lambda>m x. if int_of m < int_of x then x else m) n ns)"

fun py_min :: "py_num list \<Rightarrow> py_error + py_num" where
  "py_min [] = Inl ValueError"
| "py_min (n # ns) = Inr (foldl (\<lambda>m x. if int_of x < int_of m then x else m) n ns)"

text \<open>\<^verbatim>\<open>xs[-1]\<close>, and \<^verbatim>\<open>x > y\<close> for an integer and a float: false against NaN.\<close>

fun py_last :: "int list \<Rightarrow> py_error + int" where
  "py_last [] = Inl IndexError"
| "py_last (x # xs) = Inr (last (x # xs))"

fun py_gt :: "int \<Rightarrow> np_float \<Rightarrow> bool" where
  "py_gt x NaN = False"
| "py_gt x (Fin y) = (y < real_of_int x)"

record statistics =
  Total_Commits :: nat
  Average_Weekly_Commits :: np_float
  Median_Weekly_Commits :: np_float
  Highest_Weekly_Activity :: py_num
  Lowest_Weekly_Activity :: py_num
  Standard_Deviation :: np_float
  Recent_Activity_Trend :: string

text \<open>
  \<open>weekly_totals\<close> is the list of totals by their numbers, which is all that
  \<^verbatim>\<open>numpy\<close>, the slices and the comparison use of it; \<^verbatim>\<open>max\<close> and \<^verbatim>\<open>min\<close> get the
  objects. \<^verbatim>\<open>weekly_totals[-12:]\<close> is \<open>drop (length weekly_totals - 12) weekly_totals\<close>,
  the subtraction stopping at 0, and \<^verbatim>\<open>recent_weeks[:-1]\<close> is \<open>butlast recent_weeks\<close>.
  The entries of the dictionary are evaluated in the order written, so \<^verbatim>\<open>np.mean\<close>
  fails before \<^verbatim>\<open>max\<close> does.
\<close>

definition calculate_statistics :: "(real \<Rightarrow> bool) \<Rightarrow> activity \<Rightarrow> py_error + statistics" where
  "calculate_statistics up activity_data =
     (case totals_of (activity_by_week activity_data) of Inl e \<Rightarrow> Inl e | Inr vs \<Rightarrow>
       (case as_numbers vs of None \<Rightarrow> Inl TypeError | Some numbers \<Rightarrow>
         (let weekly_totals = map int_of numbers
          in case py_max numbers of Inl e \<Rightarrow> Inl e | Inr highest \<Rightarrow>
           (case py_min numbers of Inl e \<Rightarrow> Inl e | Inr lowest \<Rightarrow>
             (let recent_weeks = drop (length weekly_totals - 12) weekly_totals
              in case py_last recent_weeks of Inl e \<Rightarrow> Inl e | Inr final \<Rightarrow>
                 Inr \<lparr>Total_Commits = total_commits activity_data,
                      Average_Weekly_Commits = py_round2 up (np_mean weekly_totals),
                      Median_Weekly_Commits = np_median weekly_totals,
                      Highest_Weekly_Activity = highest,
                      Lowest_Weekly_Activity = lowest,
                      Standard_Deviation = py_round2 up (np_std weekly_totals),
                      Recent_Activity_Trend =
                        (if py_gt final (np_mean (butlast recent_weeks))
                         then ''Increasing'' else ''Decreasing'')\<rparr>)))))"

section \<open>Export\<close>

text \<open>
  A cell of the \<^verbatim>\<open>Value\<close> column is a string, or the integer that
  \<^verbatim>\<open>contributor['contributions']\<close> holds. A character of a string of the model stands
  for a character of the Python string, so that \<open>length\<close> is \<^verbatim>\<open>len\<close>.
\<close>

datatype cell = Str string | Num int

record contributor =
  login :: string
  contributions :: int

record export_row =
  Category :: string
  Item :: string
  Value :: cell
  Date :: string

fun dec :: "nat \<Rightarrow> string" where
  "dec n = (if n < 10 then [''0123456789'' ! n] else dec (n div 10) @ [''0123456789'' ! (n mod 10)])"

definition pad2 :: "nat \<Rightarrow> string" where
  "pad2 n = (if n < 10 then ''0'' @ dec n else dec n)"

text \<open>
  \<^verbatim>\<open>strftime('%Y-%m-%d %H:%M:%S')\<close>. The year is written without padding, as the C
  library of Linux does; from year 1000 on every platform agrees.
\<close>

definition strftime :: "datetime \<Rightarrow> string" where
  "strftime t =
     dec (year t) @ ''-'' @ pad2 (month t) @ ''-'' @ pad2 (day t) @ '' '' @
     pad2 (hour t) @ '':'' @ pad2 (minute t) @ '':'' @ pad2 (second t)"

text \<open>
  \<^verbatim>\<open>prepare_dataframe_for_export\<close> reads the clock once for every metadata row and once
  for every contributor row: \<open>now k\<close> is what the call number \<open>k\<close> of
  \<^verbatim>\<open>datetime.now()\<close> returns, counted from 0 within the invocation, down to the
  second, which is all the format shows. \<open>str\<close> is
  Python's \<^verbatim>\<open>str\<close> on the values of the metadata dictionary, which is given as the
  list of its items in order. The result is the list of rows the data frame is built from.
\<close>

definition prepare_dataframe_for_export ::
  "(nat \<Rightarrow> datetime) \<Rightarrow> ('v \<Rightarrow> string) \<Rightarrow> (string \<times> 'v) list \<Rightarrow> contributor list \<Rightarrow>
   activity \<Rightarrow> export_row list" where
  "prepare_dataframe_for_export now str metadata contributors activity_data =
     map (\<lambda>(k, key, value).
            \<lparr>Category = ''Metadata'', Item = key, Value = Str (str value),
             Date = strftime (now k)\<rparr>)
         (enumerate 0 metadata)
     @ map (\<lambda>(k, contributor).
            \<lparr>Category = ''Contributors'', Item = login contributor,
             Value = Num (contributions contributor), Date = strftime (now k)\<rparr>)
         (enumerate (length metadata) (take 10 contributors))
     @ map (\<lambda>commit.
            \<lparr>Category = ''Commits'', Item = sha commit,
             Value = Str (if length (message commit) > 100
                          then take 100 (message commit) @ ''...''
                          else message commit),
             Date = strftime (date commit)\<rparr>)
         (take 20 (commit_history activity_data))"

section \<open>The statements of the specification\<close>

text \<open>The weekly totals of a dataset are the integers \<open>xs\<close>, in order.\<close>

definition has_totals :: "activity \<Rightarrow> int list \<Rightarrow> bool" where
  "has_totals a xs =
     (map total (activity_by_week a) = map (\<lambda>n. Some (PyNum (PyInt n))) xs)"

text \<open>The last 12 weekly totals, or all of them if fewer than 12 exist.\<close>

definition trend_slice :: "int list \<Rightarrow> int list" where
  "trend_slice xs = (if length xs < 12 then xs else drop (length xs - 12) xs)"

definition arithmetic_mean :: "int list \<Rightarrow> real" where
  "arithmetic_mean xs = real_of_int (sum_list xs) / real (length xs)"

text \<open>
  The label of the specification: the final element of the slice against the mean of the
  other elements.
\<close>

definition trend_label :: "int list \<Rightarrow> string" where
  "trend_label xs =
     (if arithmetic_mean (butlast (trend_slice xs)) < real_of_int (last (trend_slice xs))
      then ''Increasing'' else ''Decreasing'')"

text \<open>
  The population standard deviation, as the root of the mean of the squares less the square
  of the mean, and the median.
\<close>

definition population_std :: "int list \<Rightarrow> real" where
  "population_std xs =
     sqrt ((\<Sum>x\<leftarrow>xs. (real_of_int x)\<^sup>2) / real (length xs) - (arithmetic_mean xs)\<^sup>2)"

definition median :: "int list \<Rightarrow> real" where
  "median xs =
     (if odd (length xs) then real_of_int (sort xs ! (length xs div 2))
      else (real_of_int (sort xs ! (length xs div 2 - 1)) +
            real_of_int (sort xs ! (length xs div 2))) / 2)"

text \<open>
  A value \<open>r\<close> is \<open>x\<close> rounded to two decimal places: it has two decimal places and is
  as near to \<open>x\<close> as such a number can be, up to the hundred-thousandth that the rounding
  errors of binary64 are allowed.
\<close>

definition rounded_to_2 :: "np_float \<Rightarrow> real \<Rightarrow> bool" where
  "rounded_to_2 r x =
     (\<exists>k::int. r = Fin (real_of_int k / 100) \<and>
        \<bar>real_of_int k / 100 - x\<bar> \<le> 1 / 200 + 1 / 100000)"

text \<open>A week whose total is absent, null or a string, and one whose total is a number.\<close>

definition malformed_total :: "week_entry \<Rightarrow> bool" where
  "malformed_total w =
     (case total w of None \<Rightarrow> True | Some PyNone \<Rightarrow> True | Some (PyStr s) \<Rightarrow> True
      | Some (PyNum n) \<Rightarrow> False)"

definition number_total :: "week_entry \<Rightarrow> bool" where
  "number_total w = (case total w of Some (PyNum n) \<Rightarrow> True | _ \<Rightarrow> False)"

text \<open>
  A commit record that exposes its four values, one whose author timestamp parses, and the
  record kept for it.
\<close>

definition exposes_all :: "raw_commit \<Rightarrow> bool" where
  "exposes_all c =
     (raw_date c \<noteq> None \<and> raw_message c \<noteq> None \<and> raw_name c \<noteq> None \<and> raw_sha c \<noteq> None)"

definition parses :: "raw_commit \<Rightarrow> bool" where
  "parses c = (case raw_date c of None \<Rightarrow> False | Some d \<Rightarrow> strptime d \<noteq> None)"

definition stored :: "raw_commit \<Rightarrow> commit_entry" where
  "stored c =
     \<lparr>date = the (strptime (the (raw_date c))), message = the (raw_message c),
      author = the (raw_name c), sha = take 7 (the (raw_sha c))\<rparr>"

text \<open>Data for the examples.\<close>

definition weeks_of :: "int list \<Rightarrow> week_entry list" where
  "weeks_of xs = map (\<lambda>n. \<lparr>week = 0, total = Some (PyNum (PyInt n))\<rparr>) xs"

definition dataset_of :: "int list \<Rightarrow> activity" where
  "dataset_of xs =
     \<lparr>weekly_commits = sum_list xs, activity_by_week = weeks_of xs, commit_history = [],
      total_commits = 0\<rparr>"

definition never_up :: "real \<Rightarrow> bool" where
  "never_up x = False"

definition commit_at :: "string \<Rightarrow> raw_commit" where
  "commit_at d =
     \<lparr>raw_date = Some d, raw_message = Some ''update'', raw_name = Some ''ann'',
      raw_sha = Some ''0123456789abcdef0123456789abcdef01234567''\<rparr>"

definition noon :: "nat \<Rightarrow> datetime" where
  "noon k = \<lparr>year = 2024, month = 6, day = 1, hour = 12, minute = 0, second = 0\<rparr>"

definition entry_with :: "string \<Rightarrow> commit_entry" where
  "entry_with m =
     \<lparr>date = \<lparr>year = 2020, month = 1, day = 2, hour = 3, minute = 4, second = 5\<rparr>,
      message = m, author = ''ann'', sha = ''0123456''\<rparr>"

definition history_of :: "commit_entry list \<Rightarrow> activity" where
  "history_of cs =
     \<lparr>weekly_commits = 0, activity_by_week = [], commit_history = cs,
      total_commits = length cs\<rparr>"

section \<open>Statistics of a dataset with integer totals\<close>

lemma totals_of_ints:
  "map total ws = map (\<lambda>n. Some (PyNum (PyInt n))) xs \<Longrightarrow>
   totals_of ws = Inr (map (\<lambda>n. PyNum (PyInt n)) xs)"
proof (induction ws arbitrary: xs)
  case Nil
  then show ?case by simp
next
  case (Cons w ws)
  then obtain y ys where xs: "xs = y # ys" by (cases xs) auto
  with Cons.prems have "total w = Some (PyNum (PyInt y))"
    and "map total ws = map (\<lambda>n. Some (PyNum (PyInt n))) ys"
    by simp_all
  with Cons.IH [of ys] xs show ?case by simp
qed

lemma as_numbers_ints: "as_numbers (map (\<lambda>n. PyNum (PyInt n)) xs) = Some (map PyInt xs)"
  by (induction xs) simp_all

lemma int_of_ints: "map (int_of \<circ> PyInt) xs = xs"
  by (induction xs) simp_all

lemma foldl_max_int: "foldl max x xs = Max (insert x (set xs))"
  for x :: int
proof (induction xs arbitrary: x)
  case Nil
  then show ?case by simp
next
  case (Cons y ys)
  have "Max (insert (max x y) (set ys)) = Max (insert x (insert y (set ys)))"
    by (cases "set ys = {}") (simp_all add: max.assoc)
  with Cons show ?case by simp
qed

lemma foldl_min_int: "foldl min x xs = Min (insert x (set xs))"
  for x :: int
proof (induction xs arbitrary: x)
  case Nil
  then show ?case by simp
next
  case (Cons y ys)
  have "Min (insert (min x y) (set ys)) = Min (insert x (insert y (set ys)))"
    by (cases "set ys = {}") (simp_all add: min.assoc)
  with Cons show ?case by simp
qed

lemma foldl_max:
  "foldl (\<lambda>m x. if int_of m < int_of x then x else m) (PyInt x) (map PyInt xs) =
   PyInt (foldl max x xs)"
proof (induction xs arbitrary: x)
  case Nil
  then show ?case by simp
next
  case (Cons y ys)
  have "(if x < y then PyInt y else PyInt x) = PyInt (max x y)" by (simp add: max_def)
  with Cons [of "max x y"] show ?case by simp
qed

lemma foldl_min:
  "foldl (\<lambda>m x. if int_of x < int_of m then x else m) (PyInt x) (map PyInt xs) =
   PyInt (foldl min x xs)"
proof (induction xs arbitrary: x)
  case Nil
  then show ?case by simp
next
  case (Cons y ys)
  have "(if y < x then PyInt y else PyInt x) = PyInt (min x y)" by (auto simp: min_def)
  with Cons [of "min x y"] show ?case by simp
qed

lemma py_max_Max: "xs \<noteq> [] \<Longrightarrow> py_max (map PyInt xs) = Inr (PyInt (Max (set xs)))"
  by (cases xs) (simp_all add: foldl_max foldl_max_int)

lemma py_min_Min: "xs \<noteq> [] \<Longrightarrow> py_min (map PyInt xs) = Inr (PyInt (Min (set xs)))"
  by (cases xs) (simp_all add: foldl_min foldl_min_int)

lemma py_last_last: "xs \<noteq> [] \<Longrightarrow> py_last xs = Inr (last xs)"
  by (cases xs) simp_all

lemma drop_is_trend_slice: "drop (length xs - 12) xs = trend_slice xs"
  by (simp add: trend_slice_def)

lemma trend_slice_nonempty: "xs \<noteq> [] \<Longrightarrow> trend_slice xs \<noteq> []"
  by (auto simp: trend_slice_def)

lemma statistics_of_ints:
  assumes "has_totals a xs" and "xs \<noteq> []"
  shows "calculate_statistics up a =
     Inr \<lparr>Total_Commits = total_commits a,
          Average_Weekly_Commits = py_round2 up (np_mean xs),
          Median_Weekly_Commits = np_median xs,
          Highest_Weekly_Activity = PyInt (Max (set xs)),
          Lowest_Weekly_Activity = PyInt (Min (set xs)),
          Standard_Deviation = py_round2 up (np_std xs),
          Recent_Activity_Trend =
            (if py_gt (last (trend_slice xs)) (np_mean (butlast (trend_slice xs)))
             then ''Increasing'' else ''Decreasing'')\<rparr>"
proof -
  from assms(1) have t: "totals_of (activity_by_week a) = Inr (map (\<lambda>n. PyNum (PyInt n)) xs)"
    unfolding has_totals_def by (rule totals_of_ints)
  from assms(2) have l: "py_last (trend_slice xs) = Inr (last (trend_slice xs))"
    by (simp add: py_last_last trend_slice_nonempty)
  show ?thesis
    unfolding calculate_statistics_def
    by (simp add: t as_numbers_ints int_of_ints py_max_Max py_min_Min assms(2)
        drop_is_trend_slice l Let_def)
qed

lemma has_totals_dataset_of: "has_totals (dataset_of xs) xs"
  by (simp add: has_totals_def dataset_of_def weeks_of_def comp_def)

lemma trend_slice_append: "length sl = 12 \<Longrightarrow> trend_slice (pre @ sl) = sl"
  by (simp add: trend_slice_def)

lemma length_trend_slice: "length (trend_slice xs) = min 12 (length xs)"
  by (simp add: trend_slice_def)

lemma trend_of_slice:
  assumes "2 \<le> length xs"
  shows "(if py_gt (last (trend_slice xs)) (np_mean (butlast (trend_slice xs)))
          then ''Increasing'' else ''Decreasing'') = trend_label xs"
proof -
  from assms have "butlast (trend_slice xs) \<noteq> []"
    by (simp add: length_trend_slice flip: length_greater_0_conv)
  then have "np_mean (butlast (trend_slice xs)) = Fin (arithmetic_mean (butlast (trend_slice xs)))"
    by (simp add: np_mean_def arithmetic_mean_def)
  then show ?thesis by (simp add: trend_label_def)
qed

lemma trend_label_slice: "length sl = 12 \<Longrightarrow> trend_label (pre @ sl) = trend_label sl"
  by (simp add: trend_label_def trend_slice_append) (simp add: trend_slice_def)

lemma trend_label_rise: "trend_label [3, 3, 3, 3, 3, 3, 3, 3, 3, 3, 3, 10] = ''Increasing''"
  by (simp add: trend_label_def trend_slice_def arithmetic_mean_def)

lemma trend_label_fall: "trend_label [10, 3, 3, 3, 3, 3, 3, 3, 3, 3, 3, 3] = ''Decreasing''"
  by (simp add: trend_label_def trend_slice_def arithmetic_mean_def)

text \<open>Rounding to two decimal places, whatever happens near a midpoint.\<close>

lemma py_round2_rounded: "rounded_to_2 (py_round2 up (Fin x)) x"
proof -
  define f where "f = \<lfloor>x * 100\<rfloor>"
  define d where "d = x * 100 - of_int f"
  define k where "k = (if d < 1 / 2 - 1 / 1000 then f
                      else if 1 / 2 + 1 / 1000 < d then f + 1
                      else if up x then f + 1 else f)"
  have r: "py_round2 up (Fin x) = Fin (real_of_int k / 100)"
    by (simp add: k_def d_def f_def Let_def)
  have "0 \<le> d" and "d < 1"
    unfolding d_def f_def by linarith+
  then have "\<bar>real_of_int k - (real_of_int f + d)\<bar> \<le> 1 / 2 + 1 / 1000"
    unfolding k_def by (auto simp: abs_if)
  moreover have "real_of_int f + d = x * 100" by (simp add: d_def)
  ultimately have "\<bar>real_of_int k - x * 100\<bar> \<le> 1 / 2 + 1 / 1000" by simp
  then have "\<bar>real_of_int k / 100 - x\<bar> \<le> 1 / 200 + 1 / 100000"
    by (simp add: abs_if field_simps split: if_splits)
  with r show ?thesis unfolding rounded_to_2_def by blast
qed

text \<open>
  Forty totals that sum to 23: the mean is the midpoint 0.575, and the model gives 0.57 or
  0.58 as \<open>up\<close> says; the code gives 0.57.
\<close>

lemma midpoint_mean:
  "py_round2 up (np_mean (replicate 23 1 @ replicate 17 0)) =
     Fin (if up (23 / 40) then 58 / 100 else 57 / 100)"
  by (simp add: np_mean_def sum_list_replicate)

text \<open>The mean of the squared deviations is the mean of the squares less the squared mean.\<close>

lemma sum_squared_deviations:
  "(\<Sum>x\<leftarrow>xs. (real_of_int x - m)\<^sup>2) =
   (\<Sum>x\<leftarrow>xs. (real_of_int x)\<^sup>2) - 2 * m * real_of_int (sum_list xs) + real (length xs) * m\<^sup>2"
  by (induction xs) (simp_all add: power2_eq_square algebra_simps)

lemma np_std_population: "xs \<noteq> [] \<Longrightarrow> np_std xs = Fin (population_std xs)"
proof -
  assume "xs \<noteq> []"
  then have n: "real (length xs) \<noteq> 0" by simp
  define m where "m = real_of_int (sum_list xs) / real (length xs)"
  have s: "real_of_int (sum_list xs) = real (length xs) * m"
    using n by (simp add: m_def)
  have "(\<Sum>x\<leftarrow>xs. (real_of_int x - m)\<^sup>2) / real (length xs) =
      (\<Sum>x\<leftarrow>xs. (real_of_int x)\<^sup>2) / real (length xs) - m\<^sup>2"
    unfolding sum_squared_deviations s using n
    by (simp add: field_simps power2_eq_square)
  with \<open>xs \<noteq> []\<close> show ?thesis
    by (simp add: np_std_def population_std_def arithmetic_mean_def Let_def m_def)
qed

lemma np_mean_arithmetic: "xs \<noteq> [] \<Longrightarrow> np_mean xs = Fin (arithmetic_mean xs)"
  by (simp add: np_mean_def arithmetic_mean_def)

lemma np_median_median: "xs \<noteq> [] \<Longrightarrow> np_median xs = Fin (median xs)"
  by (simp add: np_median_def median_def Let_def)

lemma statistics_total:
  "calculate_statistics up a = Inr s \<Longrightarrow> Total_Commits s = total_commits a"
  by (auto simp: calculate_statistics_def Let_def split: sum.splits option.splits)

section \<open>Facts about the fetch\<close>

lemma number_totals:
  "list_all number_total ws \<Longrightarrow> \<exists>ns. totals_of ws = Inr (map PyNum ns)"
proof (induction ws)
  case Nil
  then show ?case by simp
next
  case (Cons w ws)
  then obtain ns where ns: "totals_of ws = Inr (map PyNum ns)" by auto
  from Cons.prems obtain n where "total w = Some (PyNum n)"
    by (auto simp: number_total_def split: option.splits py_value.splits)
  with ns have "totals_of (w # ws) = Inr (map PyNum (n # ns))" by simp
  then show ?case by blast
qed

lemma py_sum_numbers: "py_sum acc (map PyNum ns) = Inr (acc + sum_list (map int_of ns))"
  by (induction ns arbitrary: acc) (simp_all add: add.assoc)

lemma py_sum_TypeError:
  "\<exists>v\<in>set vs. \<forall>n. v \<noteq> PyNum n \<Longrightarrow> py_sum acc vs = Inl TypeError"
  by (induction acc vs rule: py_sum.induct) auto

lemma totals_of_eq:
  "totals_of ws =
     (if \<exists>w\<in>set ws. total w = None then Inl KeyError
      else Inr (map (\<lambda>w. the (total w)) ws))"
  by (induction ws) (auto split: option.splits)

lemma process_commit_exposed:
  "exposes_all c \<Longrightarrow> process_commit c = (if parses c then Some (stored c) else None)"
  by (auto simp: exposes_all_def process_commit_def parses_def stored_def)

lemma process_commit_hidden: "\<not> exposes_all c \<Longrightarrow> process_commit c = None"
  by (auto simp: exposes_all_def process_commit_def Option.bind_eq_None_conv)

lemma process_commits_filter:
  "list_all exposes_all cs \<Longrightarrow> process_commits cs = map stored (filter parses cs)"
  by (induction cs) (simp_all add: process_commit_exposed)

lemma length_filter_parses:
  "length (filter parses cs) = length cs - length (filter (\<lambda>c. \<not> parses c) cs)"
  using sum_length_filter_compl [of parses cs] by simp

section \<open>Facts about the export\<close>

lemma map_snd_enumerate_f: "map (\<lambda>x. f (snd x)) (enumerate n xs) = map f xs"
proof -
  have "map (\<lambda>x. f (snd x)) (enumerate n xs) = map f (map snd (enumerate n xs))"
    by (simp only: map_map comp_def)
  then show ?thesis by simp
qed

lemma map_fst_enumerate_f:
  "map (\<lambda>x. f (fst x)) (enumerate n xs) = map f [n..<n + length xs]"
proof -
  have "map (\<lambda>x. f (fst x)) (enumerate n xs) = map f (map fst (enumerate n xs))"
    by (simp only: map_map comp_def)
  then show ?thesis by simp
qed

lemma export_length:
  "length (prepare_dataframe_for_export now str md cs a) =
     length md + min 10 (length cs) + min 20 (length (commit_history a))"
  by (simp add: prepare_dataframe_for_export_def min.commute)

lemma export_Category:
  "map Category (prepare_dataframe_for_export now str md cs a) =
     replicate (length md) ''Metadata'' @ replicate (min 10 (length cs)) ''Contributors'' @
     replicate (min 20 (length (commit_history a))) ''Commits''"
  by (simp add: prepare_dataframe_for_export_def comp_def case_prod_beta map_replicate_const
      min.commute)

lemma export_Item:
  "map Item (prepare_dataframe_for_export now str md cs a) =
     map fst md @ map login (take 10 cs) @ map sha (take 20 (commit_history a))"
  by (simp add: prepare_dataframe_for_export_def comp_def case_prod_beta map_snd_enumerate_f)

lemma export_Date:
  "map Date (prepare_dataframe_for_export now str md cs a) =
     map (\<lambda>k. strftime (now k)) [0..<length md + min 10 (length cs)] @
     map (\<lambda>c. strftime (date c)) (take 20 (commit_history a))"
proof -
  have u: "[0..<length md + min 10 (length cs)] =
      [0..<length md] @ [length md..<length md + min 10 (length cs)]"
    by (rule upt_add_eq_append) simp
  have m: "map (\<lambda>x. strftime (now (fst x))) (enumerate 0 md) =
      map (\<lambda>k. strftime (now k)) [0..<length md]"
    using map_fst_enumerate_f [of "\<lambda>k. strftime (now k)" 0 md] by simp
  have c: "map (\<lambda>x. strftime (now (fst x))) (enumerate (length md) (take 10 cs)) =
      map (\<lambda>k. strftime (now k)) [length md..<length md + min 10 (length cs)]"
    using map_fst_enumerate_f [of "\<lambda>k. strftime (now k)" "length md" "take 10 cs"]
    by (simp add: min.commute)
  show ?thesis
    unfolding u
    by (simp add: prepare_dataframe_for_export_def comp_def case_prod_beta m c)
qed

lemma export_commit_row:
  assumes "i < length (commit_history a)" and "i < 20"
  shows "prepare_dataframe_for_export now str md cs a ! (length md + min 10 (length cs) + i) =
     \<lparr>Category = ''Commits'', Item = sha (commit_history a ! i),
      Value = Str (if length (message (commit_history a ! i)) > 100
                   then take 100 (message (commit_history a ! i)) @ ''...''
                   else message (commit_history a ! i)),
      Date = strftime (date (commit_history a ! i))\<rparr>"
proof -
  define A where "A = map (\<lambda>(k, key, value).
            \<lparr>Category = ''Metadata'', Item = key, Value = Str (str value),
             Date = strftime (now k)\<rparr>) (enumerate 0 md)"
  define B where "B = map (\<lambda>(k, contributor).
            \<lparr>Category = ''Contributors'', Item = login contributor,
             Value = Num (contributions contributor), Date = strftime (now k)\<rparr>)
         (enumerate (length md) (take 10 cs))"
  define C where "C = map (\<lambda>commit.
            \<lparr>Category = ''Commits'', Item = sha commit,
             Value = Str (if length (message commit) > 100
                          then take 100 (message commit) @ ''...''
                          else message commit),
             Date = strftime (date commit)\<rparr>)
         (take 20 (commit_history a))"
  have rows: "prepare_dataframe_for_export now str md cs a = A @ B @ C"
    by (simp add: prepare_dataframe_for_export_def A_def B_def C_def)
  have lA: "length A = length md" by (simp add: A_def)
  have lB: "length B = min 10 (length cs)" by (simp add: B_def min.commute)
  have "(A @ B @ C) ! (length A + (length B + i)) = (B @ C) ! (length B + i)"
    by (rule nth_append_length_plus)
  also have "\<dots> = C ! i" by (rule nth_append_length_plus)
  finally have "prepare_dataframe_for_export now str md cs a ! (length md + min 10 (length cs) + i) = C ! i"
    by (simp add: rows lA lB add.assoc)
  with assms show ?thesis by (simp add: C_def)
qed

section \<open>The empty dataset\<close>

text \<open>
  Claim C5. A dataset with no weekly points gets no statistics: \<^verbatim>\<open>calculate_statistics\<close>
  fails. The mean and the median of the empty list are NaN with a warning, and
  \<^verbatim>\<open>max\<close> of the empty list then raises \<^verbatim>\<open>ValueError\<close>, which is the failure
  the specification calls EmptyDatasetError.
\<close>

theorem empty_dataset_fails:
  "activity_by_week a = [] \<Longrightarrow> calculate_statistics up a = Inl ValueError"
  by (simp add: calculate_statistics_def)

theorem empty_dataset_fails_witness:
  "activity_by_week (dataset_of []) = [] \<and>
   calculate_statistics never_up (dataset_of []) = Inl ValueError"
  using empty_dataset_fails [of "dataset_of []" never_up]
  by (simp add: dataset_of_def weeks_of_def)

section \<open>The trend label\<close>

text \<open>
  Claim C1. For a dataset with at least two weekly totals the trend label is decided on the
  last 12 totals, or on all of them if there are fewer: it is Increasing if and only if the
  final total of that slice is strictly greater than the arithmetic mean of the other totals
  of the slice, and Decreasing otherwise, a tie included. Only the last 12 totals count:
  whatever precedes a slice of 12 leaves the label as it is; it is Increasing for the slice
  of eleven 3s and a 10, Decreasing for the slice of a 10 and eleven 3s.
\<close>

theorem trend_classification:
  assumes "has_totals a xs" and "2 \<le> length xs"
  shows "\<exists>s. calculate_statistics up a = Inr s \<and>
     Recent_Activity_Trend s = trend_label xs \<and>
     (\<forall>pre sl. xs = pre @ sl \<and> length sl = 12 \<longrightarrow> Recent_Activity_Trend s = trend_label sl) \<and>
     (\<forall>pre. xs = pre @ [3, 3, 3, 3, 3, 3, 3, 3, 3, 3, 3, 10] \<longrightarrow>
            Recent_Activity_Trend s = ''Increasing'') \<and>
     (\<forall>pre. xs = pre @ [10, 3, 3, 3, 3, 3, 3, 3, 3, 3, 3, 3] \<longrightarrow>
            Recent_Activity_Trend s = ''Decreasing'')"
proof -
  from assms(2) have ne: "xs \<noteq> []" by auto
  let ?s = "\<lparr>Total_Commits = total_commits a,
          Average_Weekly_Commits = py_round2 up (np_mean xs),
          Median_Weekly_Commits = np_median xs,
          Highest_Weekly_Activity = PyInt (Max (set xs)),
          Lowest_Weekly_Activity = PyInt (Min (set xs)),
          Standard_Deviation = py_round2 up (np_std xs),
          Recent_Activity_Trend = trend_label xs\<rparr>"
  have run: "calculate_statistics up a = Inr ?s"
    using statistics_of_ints [OF assms(1) ne] trend_of_slice [OF assms(2)] by simp
  have lab: "Recent_Activity_Trend ?s = trend_label xs" by simp
  have slice: "\<forall>pre sl. xs = pre @ sl \<and> length sl = 12 \<longrightarrow> trend_label xs = trend_label sl"
    by (auto simp: trend_label_slice)
  have rise: "\<forall>pre. xs = pre @ [3, 3, 3, 3, 3, 3, 3, 3, 3, 3, 3, 10] \<longrightarrow> trend_label xs = ''Increasing''"
    using trend_label_slice [of "[3, 3, 3, 3, 3, 3, 3, 3, 3, 3, 3, 10]"] trend_label_rise by auto
  have fall: "\<forall>pre. xs = pre @ [10, 3, 3, 3, 3, 3, 3, 3, 3, 3, 3, 3] \<longrightarrow> trend_label xs = ''Decreasing''"
    using trend_label_slice [of "[10, 3, 3, 3, 3, 3, 3, 3, 3, 3, 3, 3]"] trend_label_fall by auto
  from run lab slice rise fall show ?thesis
    by (intro exI [of _ ?s] conjI) simp_all
qed

text \<open>
  The witness has a thirteenth total that would turn the label if it were counted: the mean
  of all twelve others is above 10.
\<close>

theorem trend_classification_witness:
  "has_totals (dataset_of [1000, 3, 3, 3, 3, 3, 3, 3, 3, 3, 3, 3, 10])
     [1000, 3, 3, 3, 3, 3, 3, 3, 3, 3, 3, 3, 10] \<and>
   2 \<le> length [1000, 3, 3, 3, 3, 3, 3, 3, 3, 3, 3, 3, 10 :: int] \<and>
   arithmetic_mean [1000, 3, 3, 3, 3, 3, 3, 3, 3, 3, 3, 3] > 10 \<and>
   (\<exists>s. calculate_statistics never_up
          (dataset_of [1000, 3, 3, 3, 3, 3, 3, 3, 3, 3, 3, 3, 10]) = Inr s \<and>
        Recent_Activity_Trend s = ''Increasing'')"
proof -
  let ?xs = "[1000, 3, 3, 3, 3, 3, 3, 3, 3, 3, 3, 3, 10 :: int]"
  have h1: "has_totals (dataset_of ?xs) ?xs" by (rule has_totals_dataset_of)
  have h2: "2 \<le> length ?xs" by simp
  have h3: "arithmetic_mean [1000, 3, 3, 3, 3, 3, 3, 3, 3, 3, 3, 3] > 10"
    by (simp add: arithmetic_mean_def)
  have split: "?xs = [1000] @ [3, 3, 3, 3, 3, 3, 3, 3, 3, 3, 3, 10]" by simp
  from trend_classification [OF h1 h2, of never_up] split h1 h2 h3 show ?thesis by blast
qed

text \<open>
  Claim C2 requires a failure where the trend slice has exactly one element. The code has
  no such failure. For a dataset whose only weekly total is 5 the rest of the slice is
  empty, \<^verbatim>\<open>np.mean\<close> of it is NaN with a warning, \<^verbatim>\<open>5 > NaN\<close> is false, and the
  report is returned with the label Decreasing.
\<close>

theorem single_point_window_label:
  "calculate_statistics up (dataset_of [5]) =
     Inr \<lparr>Total_Commits = 0, Average_Weekly_Commits = Fin 5, Median_Weekly_Commits = Fin 5,
          Highest_Weekly_Activity = PyInt 5, Lowest_Weekly_Activity = PyInt 5,
          Standard_Deviation = Fin 0, Recent_Activity_Trend = ''Decreasing''\<rparr>"
  by (simp add: dataset_of_def weeks_of_def calculate_statistics_def np_mean_def np_median_def
      np_std_def)

section \<open>Descriptive statistics\<close>

text \<open>
  Claim C6, as stated, gives the standard deviation of the weekly totals 2, 4, 4, 4, 5, 5,
  7, 9 as about 2.06. The population standard deviation of these totals is exactly 2, and
  that is what the report holds.
\<close>

theorem example_deviation_counterexample:
  "calculate_statistics never_up (dataset_of [2, 4, 4, 4, 5, 5, 7, 9]) =
     Inr \<lparr>Total_Commits = 0, Average_Weekly_Commits = Fin 5,
          Median_Weekly_Commits = Fin (9 / 2), Highest_Weekly_Activity = PyInt 9,
          Lowest_Weekly_Activity = PyInt 2, Standard_Deviation = Fin 2,
          Recent_Activity_Trend = ''Increasing''\<rparr> \<and>
   \<not> \<bar>2 - 206 / 100\<bar> < (1 / 100 :: real)"
  by (simp add: dataset_of_def weeks_of_def calculate_statistics_def np_mean_def np_median_def
      np_std_def)

text \<open>
  Claim C6, amended. For a dataset with at least one weekly total the report holds the
  population mean rounded to two decimal places, the population standard deviation rounded
  to two decimal places, the median as it is, and the maximum and the minimum of the
  totals as the integers they are; for the totals 2, 4, 4, 4, 5, 5, 7, 9 these are 5, 2,
  4.5, 9 and 2. Rounded means: a number with two decimal places that is nearest to the
  value, where a value within binary64 rounding error of the midpoint of two such numbers
  may go to either.
\<close>

theorem descriptive_statistics:
  assumes "has_totals a xs" and "xs \<noteq> []"
  shows "\<exists>s. calculate_statistics up a = Inr s \<and>
     rounded_to_2 (Average_Weekly_Commits s) (arithmetic_mean xs) \<and>
     rounded_to_2 (Standard_Deviation s) (population_std xs) \<and>
     Median_Weekly_Commits s = Fin (median xs) \<and>
     Highest_Weekly_Activity s = PyInt (Max (set xs)) \<and>
     Lowest_Weekly_Activity s = PyInt (Min (set xs)) \<and>
     (xs = [2, 4, 4, 4, 5, 5, 7, 9] \<longrightarrow>
        Average_Weekly_Commits s = Fin 5 \<and> Median_Weekly_Commits s = Fin (9 / 2) \<and>
        Highest_Weekly_Activity s = PyInt 9 \<and> Lowest_Weekly_Activity s = PyInt 2 \<and>
        Standard_Deviation s = Fin 2)"
proof -
  have avg: "rounded_to_2 (py_round2 up (np_mean xs)) (arithmetic_mean xs)"
    using py_round2_rounded [of up "arithmetic_mean xs"] np_mean_arithmetic [OF assms(2)]
    by simp
  have dev: "rounded_to_2 (py_round2 up (np_std xs)) (population_std xs)"
    using py_round2_rounded [of up "population_std xs"] np_std_population [OF assms(2)]
    by simp
  have ex: "xs = [2, 4, 4, 4, 5, 5, 7, 9] \<longrightarrow>
      py_round2 up (np_mean xs) = Fin 5 \<and> median xs = 9 / 2 \<and> Max (set xs) = 9 \<and>
      Min (set xs) = 2 \<and> py_round2 up (np_std xs) = Fin 2"
    by (simp add: np_mean_def np_std_def median_def)
  from statistics_of_ints [OF assms, of up] avg dev ex show ?thesis
    by (simp add: np_median_median assms(2))
qed

theorem descriptive_statistics_witness:
  "has_totals (dataset_of [2, 4, 4, 4, 5, 5, 7, 9]) [2, 4, 4, 4, 5, 5, 7, 9] \<and>
   [2, 4, 4, 4, 5, 5, 7, 9] \<noteq> ([] :: int list) \<and>
   (\<exists>s. calculate_statistics never_up (dataset_of [2, 4, 4, 4, 5, 5, 7, 9]) = Inr s \<and>
        Average_Weekly_Commits s = Fin 5 \<and> Median_Weekly_Commits s = Fin (9 / 2) \<and>
        Highest_Weekly_Activity s = PyInt 9 \<and> Lowest_Weekly_Activity s = PyInt 2 \<and>
        Standard_Deviation s = Fin 2)"
proof -
  let ?xs = "[2, 4, 4, 4, 5, 5, 7, 9 :: int]"
  have h1: "has_totals (dataset_of ?xs) ?xs" by (rule has_totals_dataset_of)
  have h2: "?xs \<noteq> []" by simp
  from descriptive_statistics [OF h1 h2, of never_up] h1 h2 show ?thesis by blast
qed

section \<open>The reported commit count\<close>

text \<open>
  Claim C10. The Total Commits of a report is the \<^verbatim>\<open>total_commits\<close> of the dataset,
  which the fetch sets to the number of commits of the fetched page. Two datasets with the
  same \<^verbatim>\<open>total_commits\<close> report the same Total Commits whatever their weekly totals
  are, and the report does not depend on \<^verbatim>\<open>weekly_commits\<close>, the sum of the weekly
  totals.
\<close>

theorem total_commits_reported:
  "(calculate_statistics up a = Inr s \<longrightarrow> Total_Commits s = total_commits a) \<and>
   (calculate_statistics up a = Inr s \<and> calculate_statistics up b = Inr t \<and>
      total_commits a = total_commits b \<longrightarrow> Total_Commits s = Total_Commits t) \<and>
   calculate_statistics up (a\<lparr>weekly_commits := w\<rparr>) = calculate_statistics up a \<and>
   (fetch_commit_activity activity_status commits_status activity_data commits_data = Some a \<longrightarrow>
      total_commits a = length commits_data)"
proof (intro conjI)
  show "calculate_statistics up a = Inr s \<longrightarrow> Total_Commits s = total_commits a"
    by (auto dest!: statistics_total)
  show "calculate_statistics up a = Inr s \<and> calculate_statistics up b = Inr t \<and>
      total_commits a = total_commits b \<longrightarrow> Total_Commits s = Total_Commits t"
    by (auto dest!: statistics_total)
  show "calculate_statistics up (a\<lparr>weekly_commits := w\<rparr>) = calculate_statistics up a"
    by (simp add: calculate_statistics_def Let_def split: sum.splits option.splits)
  show "fetch_commit_activity activity_status commits_status activity_data commits_data = Some a \<longrightarrow>
      total_commits a = length commits_data"
    by (auto simp: fetch_commit_activity_def process_activity_def split: if_splits sum.splits)
qed

theorem total_commits_reported_witness:
  "calculate_statistics never_up ((dataset_of [7, 7])\<lparr>total_commits := 30\<rparr>) =
     Inr \<lparr>Total_Commits = 30, Average_Weekly_Commits = Fin 7, Median_Weekly_Commits = Fin 7,
          Highest_Weekly_Activity = PyInt 7, Lowest_Weekly_Activity = PyInt 7,
          Standard_Deviation = Fin 0, Recent_Activity_Trend = ''Decreasing''\<rparr> \<and>
   calculate_statistics never_up ((dataset_of [2, 4, 4, 4, 5, 5, 7, 9])\<lparr>total_commits := 30\<rparr>) =
     Inr \<lparr>Total_Commits = 30, Average_Weekly_Commits = Fin 5,
          Median_Weekly_Commits = Fin (9 / 2), Highest_Weekly_Activity = PyInt 9,
          Lowest_Weekly_Activity = PyInt 2, Standard_Deviation = Fin 2,
          Recent_Activity_Trend = ''Increasing''\<rparr> \<and>
   fetch_commit_activity 200 200 (weeks_of [7, 7]) [commit_at ''2024-01-05T03:04:05Z''] =
     Some \<lparr>weekly_commits = 14, activity_by_week = weeks_of [7, 7],
           commit_history =
             [\<lparr>date = \<lparr>year = 2024, month = 1, day = 5, hour = 3, minute = 4, second = 5\<rparr>,
               message = ''update'', author = ''ann'', sha = ''0123456''\<rparr>],
           total_commits = 1\<rparr>"
proof -
  let ?a = "(dataset_of [7, 7])\<lparr>total_commits := 30\<rparr>"
  let ?b = "(dataset_of [2, 4, 4, 4, 5, 5, 7, 9])\<lparr>total_commits := 30\<rparr>"
  let ?s = "\<lparr>Total_Commits = 30, Average_Weekly_Commits = Fin 7, Median_Weekly_Commits = Fin 7,
          Highest_Weekly_Activity = PyInt 7, Lowest_Weekly_Activity = PyInt 7,
          Standard_Deviation = Fin 0, Recent_Activity_Trend = ''Decreasing''\<rparr>"
  let ?t = "\<lparr>Total_Commits = 30, Average_Weekly_Commits = Fin 5,
          Median_Weekly_Commits = Fin (9 / 2), Highest_Weekly_Activity = PyInt 9,
          Lowest_Weekly_Activity = PyInt 2, Standard_Deviation = Fin 2,
          Recent_Activity_Trend = ''Increasing''\<rparr>"
  have a: "calculate_statistics never_up ?a = Inr ?s"
    by (simp add: dataset_of_def weeks_of_def calculate_statistics_def np_mean_def np_median_def
        np_std_def)
  have b: "calculate_statistics never_up ?b = Inr ?t"
    by (simp add: dataset_of_def weeks_of_def calculate_statistics_def np_mean_def np_median_def
        np_std_def)
  have d: "strptime ''2024-01-05T03:04:05Z'' =
      Some \<lparr>year = 2024, month = 1, day = 5, hour = 3, minute = 4, second = 5\<rparr>"
    by code_simp
  have f: "fetch_commit_activity 200 200 (weeks_of [7, 7]) [commit_at ''2024-01-05T03:04:05Z''] =
     Some \<lparr>weekly_commits = 14, activity_by_week = weeks_of [7, 7],
           commit_history =
             [\<lparr>date = \<lparr>year = 2024, month = 1, day = 5, hour = 3, minute = 4, second = 5\<rparr>,
               message = ''update'', author = ''ann'', sha = ''0123456''\<rparr>],
           total_commits = 1\<rparr>"
    by (simp add: fetch_commit_activity_def process_activity_def process_commit_def weeks_of_def
        commit_at_def d)
  have "Total_Commits ?s = Total_Commits ?t"
    using total_commits_reported [of never_up ?a ?s ?b ?t] a b by simp
  with a b f show ?thesis by simp
qed

section \<open>Normalizing the commits\<close>

text \<open>
  Claim C3. For commit records that expose an author name, an author timestamp, a message
  and a SHA, the fetch passes over exactly those whose author timestamp does not parse in
  the format \<^verbatim>\<open>%Y-%m-%dT%H:%M:%SZ\<close>, keeps the others in the order of the input, and sets
  \<^verbatim>\<open>total_commits\<close> to the number of records of the input, the ones passed over included:
  5 records of which 2 do not parse give 3 commit records and \<^verbatim>\<open>total_commits\<close> 5.
\<close>

theorem commit_normalization:
  assumes "list_all number_total ws" and "list_all exposes_all cs"
  shows "\<exists>a. fetch_commit_activity 200 200 ws cs = Some a \<and>
     commit_history a = map stored (filter parses cs) \<and>
     total_commits a = length cs \<and>
     (length cs = 5 \<and> length (filter (\<lambda>c. \<not> parses c) cs) = 2 \<longrightarrow>
        length (commit_history a) = 3 \<and> total_commits a = 5)"
proof -
  from assms(1) obtain ns where "totals_of ws = Inr (map PyNum ns)"
    using number_totals by blast
  then show ?thesis
    by (simp add: fetch_commit_activity_def process_activity_def py_sum_numbers
        process_commits_filter [OF assms(2)] length_filter_parses)
qed

theorem commit_normalization_witness:
  "list_all number_total (weeks_of [7, 7]) \<and>
   list_all exposes_all
     [commit_at ''2024-01-05T03:04:05Z'', commit_at ''yesterday'',
      commit_at ''2024-01-04T23:59:59Z'', commit_at ''2024-01-04 10:00:00'',
      commit_at ''2023-12-31T00:00:00Z''] \<and>
   (\<exists>a. fetch_commit_activity 200 200 (weeks_of [7, 7])
          [commit_at ''2024-01-05T03:04:05Z'', commit_at ''yesterday'',
           commit_at ''2024-01-04T23:59:59Z'', commit_at ''2024-01-04 10:00:00'',
           commit_at ''2023-12-31T00:00:00Z''] = Some a \<and>
        map date (commit_history a) =
          [\<lparr>year = 2024, month = 1, day = 5, hour = 3, minute = 4, second = 5\<rparr>,
           \<lparr>year = 2024, month = 1, day = 4, hour = 23, minute = 59, second = 59\<rparr>,
           \<lparr>year = 2023, month = 12, day = 31, hour = 0, minute = 0, second = 0\<rparr>] \<and>
        total_commits a = 5)"
proof -
  let ?cs = "[commit_at ''2024-01-05T03:04:05Z'', commit_at ''yesterday'',
      commit_at ''2024-01-04T23:59:59Z'', commit_at ''2024-01-04 10:00:00'',
      commit_at ''2023-12-31T00:00:00Z'']"
  have h1: "list_all number_total (weeks_of [7, 7])"
    by (simp add: weeks_of_def number_total_def)
  have h2: "list_all exposes_all ?cs"
    by (simp add: exposes_all_def commit_at_def)
  have d1: "strptime ''2024-01-05T03:04:05Z'' =
      Some \<lparr>year = 2024, month = 1, day = 5, hour = 3, minute = 4, second = 5\<rparr>"
    by code_simp
  have d2: "strptime ''yesterday'' = None"
    by code_simp
  have d3: "strptime ''2024-01-04T23:59:59Z'' =
      Some \<lparr>year = 2024, month = 1, day = 4, hour = 23, minute = 59, second = 59\<rparr>"
    by code_simp
  have d4: "strptime ''2024-01-04 10:00:00'' = None"
    by code_simp
  have d5: "strptime ''2023-12-31T00:00:00Z'' =
      Some \<lparr>year = 2023, month = 12, day = 31, hour = 0, minute = 0, second = 0\<rparr>"
    by code_simp
  from commit_normalization [OF h1 h2] h1 h2
  show ?thesis
    by (auto simp: parses_def stored_def commit_at_def d1 d2 d3 d4 d5)
qed

section \<open>Weekly totals that are not numbers\<close>

text \<open>
  Claim C4 requires that an input with a weekly record whose total is missing or is not a
  number gives no dataset, and that such a total is not taken for zero. The code has no
  check of its own and fails only where \<^verbatim>\<open>sum\<close> does. A total that is the boolean
  \<^verbatim>\<open>false\<close> is not a number of the activity data, yet \<^verbatim>\<open>sum\<close> adds it as 0 and the
  dataset is returned.
\<close>

theorem boolean_total_accepted:
  "fetch_commit_activity 200 200 [\<lparr>week = 1704067200, total = Some (PyNum (PyBool False))\<rparr>] [] =
     Some \<lparr>weekly_commits = 0,
           activity_by_week = [\<lparr>week = 1704067200, total = Some (PyNum (PyBool False))\<rparr>],
           commit_history = [], total_commits = 0\<rparr>"
  by (simp add: fetch_commit_activity_def process_activity_def)

text \<open>
  Where the total of a record is missing, null or a string, no dataset is built, whatever
  else the input holds: the body raises \<^verbatim>\<open>KeyError\<close> if a total is missing and
  \<^verbatim>\<open>TypeError\<close> otherwise, and the fetch reports it and returns \<^verbatim>\<open>None\<close>.
\<close>

lemma malformed_total_fails:
  assumes "\<exists>w\<in>set ws. malformed_total w"
  shows "fetch_commit_activity activity_status commits_status ws cs = None \<and>
     process_activity ws cs =
       (if \<exists>w\<in>set ws. total w = None then Inl KeyError else Inl TypeError)"
proof (cases "\<exists>w\<in>set ws. total w = None")
  case True
  then have "totals_of ws = Inl KeyError" by (simp add: totals_of_eq)
  with True show ?thesis
    by (simp add: fetch_commit_activity_def process_activity_def)
next
  case False
  then have t: "totals_of ws = Inr (map (\<lambda>w. the (total w)) ws)"
    by (simp add: totals_of_eq)
  from assms obtain w where w: "w \<in> set ws" "malformed_total w" by blast
  with False have "\<forall>n. the (total w) \<noteq> PyNum n"
    by (auto simp: malformed_total_def split: option.splits py_value.splits)
  with w(1) have "\<exists>v\<in>set (map (\<lambda>w. the (total w)) ws). \<forall>n. v \<noteq> PyNum n" by auto
  then have "py_sum 0 (map (\<lambda>w. the (total w)) ws) = Inl TypeError" by (rule py_sum_TypeError)
  with t False show ?thesis
    by (simp add: fetch_commit_activity_def process_activity_def)
qed

lemma malformed_total_example:
  "fetch_commit_activity 200 200
     [\<lparr>week = 1704067200, total = Some (PyNum (PyInt 4))\<rparr>,
      \<lparr>week = 1704672000, total = Some (PyStr ''many'')\<rparr>] [] = None"
  by (simp add: fetch_commit_activity_def process_activity_def)

section \<open>The rows of the export\<close>

text \<open>
  Claim C8. The export has one row for every field of the metadata, then one row for each
  of the first 10 contributors at most, in the order of the input, then one row for each
  of the first 20 commit records at most, in the order of the input. For 3 fields, 12
  contributors and 25 commits these are 33 rows.
\<close>

theorem export_rows:
  "map Category (prepare_dataframe_for_export now str md cs a) =
     replicate (length md) ''Metadata'' @ replicate (min 10 (length cs)) ''Contributors'' @
     replicate (min 20 (length (commit_history a))) ''Commits'' \<and>
   map Item (prepare_dataframe_for_export now str md cs a) =
     map fst md @ map login (take 10 cs) @ map sha (take 20 (commit_history a)) \<and>
   (length md = 3 \<and> length cs = 12 \<and> length (commit_history a) = 25 \<longrightarrow>
      length (prepare_dataframe_for_export now str md cs a) = 33)"
  by (simp add: export_Category export_Item export_length)

theorem export_rows_witness:
  "length [(''name'', ''repo''), (''stars'', ''5''), (''forks'', ''1'')] = 3 \<and>
   length (replicate 12 \<lparr>login = ''bob'', contributions = 3\<rparr>) = 12 \<and>
   length (commit_history (history_of (replicate 25 (entry_with ''fix'')))) = 25 \<and>
   length (prepare_dataframe_for_export noon id
             [(''name'', ''repo''), (''stars'', ''5''), (''forks'', ''1'')]
             (replicate 12 \<lparr>login = ''bob'', contributions = 3\<rparr>)
             (history_of (replicate 25 (entry_with ''fix'')))) = 33"
proof -
  let ?md = "[(''name'', ''repo''), (''stars'', ''5''), (''forks'', ''1'')]"
  let ?cs = "replicate 12 \<lparr>login = ''bob'', contributions = 3\<rparr>"
  let ?a = "history_of (replicate 25 (entry_with ''fix''))"
  have h: "length ?md = 3 \<and> length ?cs = 12 \<and> length (commit_history ?a) = 25"
    by (simp add: history_of_def)
  from export_rows [of noon id ?md ?cs ?a] h show ?thesis by blast
qed

section \<open>The message of a commit row\<close>

text \<open>
  Claim C9. The row of a commit among the first 20 holds the message of the commit: the
  first 100 characters followed by three dots if the message is longer than 100
  characters, the whole message otherwise. So a message of 150 characters is cut to 100
  characters and the dots, and a message of 50 characters is left as it is.
\<close>

theorem message_truncation:
  assumes "i < length (commit_history a)" and "i < 20"
  shows "Category (prepare_dataframe_for_export now str md cs a !
                    (length md + min 10 (length cs) + i)) = ''Commits'' \<and>
     (100 < length (message (commit_history a ! i)) \<longrightarrow>
        Value (prepare_dataframe_for_export now str md cs a !
                 (length md + min 10 (length cs) + i)) =
          Str (take 100 (message (commit_history a ! i)) @ ''...'')) \<and>
     (length (message (commit_history a ! i)) \<le> 100 \<longrightarrow>
        Value (prepare_dataframe_for_export now str md cs a !
                 (length md + min 10 (length cs) + i)) =
          Str (message (commit_history a ! i))) \<and>
     (length (message (commit_history a ! i)) = 150 \<longrightarrow>
        (\<exists>v. Value (prepare_dataframe_for_export now str md cs a !
                     (length md + min 10 (length cs) + i)) = Str v \<and>
             length v = 103 \<and> take 100 v = take 100 (message (commit_history a ! i)) \<and>
             drop 100 v = ''...'')) \<and>
     (length (message (commit_history a ! i)) = 50 \<longrightarrow>
        Value (prepare_dataframe_for_export now str md cs a !
                 (length md + min 10 (length cs) + i)) =
          Str (message (commit_history a ! i)))"
  by (simp add: export_commit_row [OF assms])

theorem message_truncation_witness:
  "Value (prepare_dataframe_for_export noon id [(''name'', ''repo'')]
            [\<lparr>login = ''bob'', contributions = 3\<rparr>]
            (history_of [entry_with (replicate 150 CHR ''x''),
                         entry_with (replicate 50 CHR ''y'')]) ! 2) =
     Str (replicate 100 CHR ''x'' @ ''...'') \<and>
   Value (prepare_dataframe_for_export noon id [(''name'', ''repo'')]
            [\<lparr>login = ''bob'', contributions = 3\<rparr>]
            (history_of [entry_with (replicate 150 CHR ''x''),
                         entry_with (replicate 50 CHR ''y'')]) ! 3) =
     Str (replicate 50 CHR ''y'')"
proof -
  let ?md = "[(''name'', ''repo'')]"
  let ?cs = "[\<lparr>login = ''bob'', contributions = 3\<rparr>]"
  let ?a = "history_of [entry_with (replicate 150 CHR ''x''), entry_with (replicate 50 CHR ''y'')]"
  have l: "length (commit_history ?a) = 2" by (simp add: history_of_def)
  have m0: "message (commit_history ?a ! 0) = replicate 150 CHR ''x''"
    by (simp add: history_of_def entry_with_def)
  have m1: "message (commit_history ?a ! 1) = replicate 50 CHR ''y''"
    by (simp add: history_of_def entry_with_def)
  have i0: "0 < length (commit_history ?a)" and i1: "1 < length (commit_history ?a)"
    using l by simp_all
  have "Value (prepare_dataframe_for_export noon id ?md ?cs ?a !
                 (length ?md + min 10 (length ?cs) + 0)) =
          Str (take 100 (message (commit_history ?a ! 0)) @ ''...'')"
    using message_truncation [OF i0, of noon id ?md ?cs] m0 by simp
  moreover have "Value (prepare_dataframe_for_export noon id ?md ?cs ?a !
                 (length ?md + min 10 (length ?cs) + 1)) =
          Str (message (commit_history ?a ! 1))"
    using message_truncation [OF i1, of noon id ?md ?cs] m1 by simp
  ultimately show ?thesis
    unfolding m0 m1 by (simp add: numeral_2_eq_2 numeral_3_eq_3)
qed

section \<open>The date of a row\<close>

text \<open>
  Claim C7, as stated: every row of one export carries the same date, the time of the
  export, and never the timestamp of a commit. The row of a commit carries the timestamp
  of its commit: with the clock at noon of 1 June 2024, the row of a commit authored on
  2 January 2020 is dated 2 January 2020.
\<close>

theorem export_date_counterexample:
  "map Date (prepare_dataframe_for_export noon id [(''name'', ''repo'')]
               [\<lparr>login = ''bob'', contributions = 3\<rparr>] (history_of [entry_with ''fix''])) =
     [''2024-06-01 12:00:00'', ''2024-06-01 12:00:00'', ''2020-01-02 03:04:05'']"
  by (simp add: prepare_dataframe_for_export_def enumerate_eq_zip strftime_def pad2_def
      noon_def history_of_def entry_with_def)

text \<open>
  Claim C7, amended. The row of a metadata field and the row of a contributor carry the
  time of the clock when the row is made, so the same date as long as the clock shows the
  same second throughout the export; the row of a commit carries the author timestamp of
  that commit.
\<close>

theorem export_dates:
  "map Date (prepare_dataframe_for_export now str md cs a) =
     map (\<lambda>k. strftime (now k)) [0..<length md + min 10 (length cs)] @
     map (\<lambda>c. strftime (date c)) (take 20 (commit_history a)) \<and>
   ((\<forall>k. now k = t) \<longrightarrow>
      take (length md + min 10 (length cs))
        (map Date (prepare_dataframe_for_export now str md cs a)) =
      replicate (length md + min 10 (length cs)) (strftime t))"
proof -
  have "(\<forall>k. now k = t) \<longrightarrow>
      map (\<lambda>k. strftime (now k)) [0..<length md + min 10 (length cs)] =
      replicate (length md + min 10 (length cs)) (strftime t)"
    by (simp add: map_replicate_const)
  then show ?thesis by (simp add: export_Date)
qed

theorem export_dates_witness:
  "(\<forall>k. noon k = \<lparr>year = 2024, month = 6, day = 1, hour = 12, minute = 0, second = 0\<rparr>) \<and>
   take 2 (map Date (prepare_dataframe_for_export noon id [(''name'', ''repo'')]
                       [\<lparr>login = ''bob'', contributions = 3\<rparr>]
                       (history_of [entry_with ''fix'']))) =
     [''2024-06-01 12:00:00'', ''2024-06-01 12:00:00''] \<and>
   drop 2 (map Date (prepare_dataframe_for_export noon id [(''name'', ''repo'')]
                       [\<lparr>login = ''bob'', contributions = 3\<rparr>]
                       (history_of [entry_with ''fix'']))) =
     [''2020-01-02 03:04:05'']"
proof -
  let ?t = "\<lparr>year = 2024, month = 6, day = 1, hour = 12, minute = 0, second = 0\<rparr>"
  have h: "\<forall>k. noon k = ?t" by (simp add: noon_def)
  have s: "strftime ?t = ''2024-06-01 12:00:00''"
    by (simp add: strftime_def pad2_def)
  have c: "strftime (date (entry_with ''fix'')) = ''2020-01-02 03:04:05''"
    by (simp add: strftime_def pad2_def entry_with_def)
  from export_dates [of noon id "[(''name'', ''repo'')]"
      "[\<lparr>login = ''bob'', contributions = 3\<rparr>]" "history_of [entry_with ''fix'']" ?t] h s c
  show ?thesis
    by (simp add: history_of_def numeral_2_eq_2)
qed

end
